theory Spec2Isabelle
  imports Main "HOL-Library.Sublist" "HOL-Library.Multiset"
begin

section \<open>Python values and the operations \<open>signalr.py\<close> applies to them\<close>

text \<open>
  A Python float: a finite one as mantissa and binary exponent (the client never computes
  with one), or one of the three values that \<open>json.loads\<close> makes of the texts
  \<open>Infinity\<close>, \<open>-Infinity\<close> and \<open>NaN\<close>, which it accepts although they are not JSON.
\<close>

datatype pyfloat = Finite int int | PosInf | NegInf | NaN

text \<open>
  A value produced by \<open>json.loads\<close> (or returned by a collaborator). An object is the
  list of its items in insertion order, which is the order \<open>dict.values()\<close> iterates in;
  the keys of a parsed object are pairwise distinct.
\<close>

datatype json =
    JNull
  | JBool bool
  | JInt int
  | JFloat pyfloat
  | JStr string
  | JArr "json list"
  | JObj "(string \<times> json) list"

text \<open>
  The exceptions the code can meet, all subclasses of \<open>Exception\<close> (so all of them are
  caught by \<open>except Exception\<close>). \<open>JSONDecodeError\<close> is the one that
  \<open>except json.JSONDecodeError\<close> catches; \<open>RecursionError\<close> is what \<open>json.loads\<close> raises
  on a text nested too deeply. \<open>OtherError\<close> stands for whatever a collaborator or the
  network library raises.
\<close>

datatype exn =
    JSONDecodeError
  | RecursionError
  | TypeError
  | KeyError
  | IndexError
  | AttributeError
  | ValueError
  | ClientResponseError nat
  | OtherError string

definition bnd :: "exn + 'a \<Rightarrow> ('a \<Rightarrow> exn + 'b) \<Rightarrow> exn + 'b" where
  "bnd m f = (case m of Inl e \<Rightarrow> Inl e | Inr x \<Rightarrow> f x)"

text \<open>\<open>bool(v)\<close>, as used by \<open>if not clean\<close>: of the floats only zero is false.\<close>

fun float_nonzero :: "pyfloat \<Rightarrow> bool" where
  "float_nonzero (Finite m e) = (m \<noteq> 0)"
| "float_nonzero f = True"

fun truthy :: "json \<Rightarrow> bool" where
  "truthy JNull = False"
| "truthy (JBool b) = b"
| "truthy (JInt i) = (i \<noteq> 0)"
| "truthy (JFloat f) = float_nonzero f"
| "truthy (JStr s) = (s \<noteq> [])"
| "truthy (JArr xs) = (xs \<noteq> [])"
| "truthy (JObj kvs) = (kvs \<noteq> [])"

text \<open>\<open>type(v).__name__\<close>, logged by the "Unknown RC format" warning.\<close>

fun py_type :: "json \<Rightarrow> string" where
  "py_type JNull = ''NoneType''"
| "py_type (JBool b) = ''bool''"
| "py_type (JInt i) = ''int''"
| "py_type (JFloat f) = ''float''"
| "py_type (JStr s) = ''str''"
| "py_type (JArr xs) = ''list''"
| "py_type (JObj kvs) = ''dict''"

text \<open>\<open>s in t\<close> for two strings: \<open>s\<close> occurs in \<open>t\<close> as a contiguous run.\<close>

fun substring :: "string \<Rightarrow> string \<Rightarrow> bool" where
  "substring s [] = (s = [])"
| "substring s (c # cs) = (prefix s (c # cs) \<or> substring s cs)"

text \<open>
  \<open>k in v\<close> for a string \<open>k\<close>: key membership in a dict, element membership in a list,
  substring test in a string, and \<open>TypeError\<close> for \<open>None\<close>, booleans and numbers.
\<close>

fun py_contains :: "string \<Rightarrow> json \<Rightarrow> exn + bool" where
  "py_contains k (JObj kvs) = Inr (k \<in> set (map fst kvs))"
| "py_contains k (JArr xs) = Inr (JStr k \<in> set xs)"
| "py_contains k (JStr t) = Inr (substring k t)"
| "py_contains k v = Inl TypeError"

text \<open>
  \<open>v[k]\<close> for a string \<open>k\<close>: a dict looks the key up and raises \<open>KeyError\<close> when it is
  missing; lists and strings take integer indices only, the rest is not subscriptable.
\<close>

fun py_getitem_str :: "json \<Rightarrow> string \<Rightarrow> exn + json" where
  "py_getitem_str (JObj kvs) k =
     (case map_of kvs k of None \<Rightarrow> Inl KeyError | Some x \<Rightarrow> Inr x)"
| "py_getitem_str v k = Inl TypeError"

text \<open>
  \<open>v[i]\<close> for the literal indices \<open>0\<close> and \<open>1\<close>: a list or a string raises \<open>IndexError\<close>
  out of range, a dict with string keys has no key \<open>i\<close>.
\<close>

fun py_getitem_int :: "json \<Rightarrow> nat \<Rightarrow> exn + json" where
  "py_getitem_int (JArr xs) i = (if i < length xs then Inr (xs ! i) else Inl IndexError)"
| "py_getitem_int (JStr t) i = (if i < length t then Inr (JStr [t ! i]) else Inl IndexError)"
| "py_getitem_int (JObj kvs) i = Inl KeyError"
| "py_getitem_int v i = Inl TypeError"

text \<open>\<open>v.get(k)\<close>: only a dict has the method; a missing key gives \<open>None\<close>.\<close>

fun py_get :: "json \<Rightarrow> string \<Rightarrow> exn + json" where
  "py_get (JObj kvs) k = Inr (case map_of kvs k of None \<Rightarrow> JNull | Some x \<Rightarrow> x)"
| "py_get v k = Inl AttributeError"

text \<open>
  \<open>for x in v\<close>: the elements of a list, the keys of a dict, the characters of a string;
  anything else is not iterable.
\<close>

fun py_iter :: "json \<Rightarrow> exn + json list" where
  "py_iter (JArr xs) = Inr xs"
| "py_iter (JObj kvs) = Inr (map (\<lambda>kv. JStr (fst kv)) kvs)"
| "py_iter (JStr t) = Inr (map (\<lambda>c. JStr [c]) t)"
| "py_iter v = Inl TypeError"

text \<open>\<open>v.replace("Z", "+00:00")\<close>: a string method; every \<open>Z\<close> is replaced.\<close>

fun py_replace_Z :: "json \<Rightarrow> exn + string" where
  "py_replace_Z (JStr s) =
     Inr (concat (map (\<lambda>c. if c = CHR ''Z'' then ''+00:00'' else [c]) s))"
| "py_replace_Z v = Inl AttributeError"

text \<open>
  A \<open>datetime\<close>: naive (no time zone), or aware. Both carry microseconds since the epoch
  (for an aware value, of the instant in UTC). \<open>datetime.utcnow()\<close> is naive, so \<open>_t0\<close> and
  \<open>_startup_cutoff\<close> are naive and are kept as plain microsecond counts.
\<close>

datatype datetime = Naive int | Aware int

text \<open>\<open>d < cutoff\<close> with a naive \<open>cutoff\<close>: comparing an aware value with it raises.\<close>

fun dt_less_naive :: "datetime \<Rightarrow> int \<Rightarrow> exn + bool" where
  "dt_less_naive (Naive t) cutoff = Inr (t < cutoff)"
| "dt_less_naive (Aware t) cutoff = Inl TypeError"

text \<open>\<open>dt.timedelta(seconds=30)\<close> in microseconds.\<close>

definition thirty_seconds :: int where
  "thirty_seconds = 30000000"

section \<open>The client, its collaborators and the effects it has\<close>

text \<open>
  \<open>SignalRClient\<close>'s own fields: \<open>_ws\<close> (the handle, a number naming the connection),
  \<open>_t0\<close> and \<open>_startup_cutoff\<close>.
\<close>

record client =
  ws :: "nat option"
  t0 :: int
  startup_cutoff :: "int option"

text \<open>
  Every call that leaves the client is recorded, in order. Debug logging (and the frame
  counter \<open>index\<close>, which only feeds it) is left out.
\<close>

datatype event =
    HttpGet string "(string \<times> string) list"
  | WsConnect string "(string \<times> json) list" "(string \<times> string) list"
  | SendJson nat json
  | Sleep int
  | WsClose nat
  | CleanRc json int
  | MachineApply json
  | AsyncSet string json json
  | LogUnknownFormat string
  | LogTransformFailed exn
  | LogReconnectFailed exn int

text \<open>
  What is outside \<open>signalr.py\<close>: \<open>json.loads\<close> (which returns the parsed value or
  raises: \<open>JSONDecodeError\<close> on a text it cannot parse, but also \<open>RecursionError\<close> or
  \<open>ValueError\<close> on some texts), \<open>datetime.fromisoformat\<close>, \<open>rc_transform.clean_rc\<close>, the lookup
  \<open>hass.data.get(FLAG_MACHINE)\<close> (whether it is truthy), the machine's \<open>apply\<close> and
  \<open>hass.states.async_set\<close>. The stateful ones read and change a world \<open>'w\<close> the client
  cannot see, and any of them may raise.
\<close>

record 'w collab =
  json_loads :: "string \<Rightarrow> exn + json"
  fromisoformat :: "string \<Rightarrow> exn + datetime"
  clean_rc :: "json \<Rightarrow> int \<Rightarrow> 'w \<Rightarrow> (exn + json) \<times> 'w"
  has_machine :: "'w \<Rightarrow> bool"
  machine_apply :: "json \<Rightarrow> 'w \<Rightarrow> (exn + json \<times> json) \<times> 'w"
  async_set :: "string \<Rightarrow> json \<Rightarrow> json \<Rightarrow> 'w \<Rightarrow> (exn + unit) \<times> 'w"

type_synonym 'w st = "'w \<times> event list"

definition emit :: "event \<Rightarrow> 'w st \<Rightarrow> 'w st" where
  "emit ev s = (fst s, snd s @ [ev])"

subsection \<open>\<open>_handle_rc\<close>\<close>

text \<open>
  \<open>rc_time < self._startup_cutoff\<close> with
  \<open>rc_time = fromisoformat(clean["utc"].replace("Z", "+00:00"))\<close>.
\<close>

definition before_cutoff :: "'w collab \<Rightarrow> json \<Rightarrow> int \<Rightarrow> exn + bool" where
  "before_cutoff C clean cutoff =
     bnd (py_getitem_str clean ''utc'') (\<lambda>utc.
     bnd (py_replace_Z utc) (\<lambda>s.
     bnd (fromisoformat C s) (\<lambda>rc_time.
     dt_less_naive rc_time cutoff)))"

text \<open>\<open>_async_update_flag_sensor\<close>.\<close>

definition async_update_flag_sensor ::
  "'w collab \<Rightarrow> json \<Rightarrow> json \<Rightarrow> 'w st \<Rightarrow> (exn + unit) \<times> 'w st" where
  "async_update_flag_sensor C state attrs s =
     (case async_set C ''sensor.f1_flag'' state attrs (fst s) of
        (r, w') \<Rightarrow> (r, (w', snd s @ [AsyncSet ''sensor.f1_flag'' state attrs])))"

text \<open>The lines from \<open>hass = self._hass\<close> to the end of the \<open>try\<close> block.\<close>

definition forward_to_machine ::
  "'w collab \<Rightarrow> json \<Rightarrow> 'w st \<Rightarrow> (exn + unit) \<times> 'w st" where
  "forward_to_machine C clean s =
     (if has_machine C (fst s) then
        (case machine_apply C clean (fst s) of
           (Inl e, w') \<Rightarrow> (Inl e, (w', snd s @ [MachineApply clean]))
         | (Inr (changed, attrs), w') \<Rightarrow>
             (if changed \<noteq> JNull
              then async_update_flag_sensor C changed attrs (w', snd s @ [MachineApply clean])
              else (Inr (), (w', snd s @ [MachineApply clean]))))
      else (Inr (), s))"

text \<open>The body of the \<open>try\<close> block.\<close>

definition handle_rc_body ::
  "'w collab \<Rightarrow> client \<Rightarrow> json \<Rightarrow> 'w st \<Rightarrow> (exn + unit) \<times> 'w st" where
  "handle_rc_body C c rc_raw s =
     (case clean_rc C rc_raw (t0 c) (fst s) of
        (Inl e, w') \<Rightarrow> (Inl e, (w', snd s @ [CleanRc rc_raw (t0 c)]))
      | (Inr clean, w') \<Rightarrow>
          (let s' = (w', snd s @ [CleanRc rc_raw (t0 c)]) in
           if \<not> truthy clean then (Inr (), s')
           else
             (case startup_cutoff c of
                None \<Rightarrow> forward_to_machine C clean s'
              | Some cutoff \<Rightarrow>
                  (case before_cutoff C clean cutoff of
                     Inl e \<Rightarrow> (Inl e, s')
                   | Inr True \<Rightarrow> (Inr (), s')
                   | Inr False \<Rightarrow> forward_to_machine C clean s'))))"

text \<open>\<open>_handle_rc\<close>: the body under \<open>except Exception\<close>, which logs and returns.\<close>

definition handle_rc :: "'w collab \<Rightarrow> client \<Rightarrow> json \<Rightarrow> 'w st \<Rightarrow> 'w st" where
  "handle_rc C c rc_raw s =
     (case handle_rc_body C c rc_raw s of
        (Inl exc, s') \<Rightarrow> emit (LogTransformFailed exc) s'
      | (Inr u, s') \<Rightarrow> s')"

subsection \<open>\<open>messages\<close>\<close>

text \<open>
  The two ways a "Messages" value is iterated: a list as it is, a dict through
  \<open>values()\<close>; \<open>None\<close> for the \<open>else\<close> branch that logs "Unknown RC format".
\<close>

fun rc_iterable :: "json \<Rightarrow> json list option" where
  "rc_iterable (JArr xs) = Some xs"
| "rc_iterable (JObj kvs) = Some (map snd kvs)"
| "rc_iterable v = None"

text \<open>\<open>for msg in iterable: await self._handle_rc(msg)\<close>.\<close>

fun handle_all :: "'w collab \<Rightarrow> client \<Rightarrow> json list \<Rightarrow> 'w st \<Rightarrow> 'w st" where
  "handle_all C c [] s = s"
| "handle_all C c (x # xs) s = handle_all C c xs (handle_rc C c x s)"

text \<open>
  What one entry of \<open>payload["M"]\<close> selects: \<open>Inr None\<close> when the \<open>if\<close> is false,
  \<open>Inr (Some raw)\<close> with \<open>raw = hub_msg["A"][1]["Messages"]\<close> when it is true, \<open>Inl\<close> the
  exception when one of the accesses raises. \<open>and\<close> evaluates its right operand only
  when the left one is true.
\<close>

definition hub_msg_raw :: "json \<Rightarrow> exn + json option" where
  "hub_msg_raw hub_msg =
     bnd (py_get hub_msg ''M'') (\<lambda>m.
       if m = JStr ''feed'' then
         bnd (py_getitem_str hub_msg ''A'') (\<lambda>a.
         bnd (py_getitem_int a 0) (\<lambda>a0.
           if a0 = JStr ''RaceControlMessages'' then
             bnd (py_getitem_str hub_msg ''A'') (\<lambda>a'.
             bnd (py_getitem_int a' 1) (\<lambda>a1.
             bnd (py_getitem_str a1 ''Messages'') (\<lambda>raw. Inr (Some raw))))
           else Inr None))
       else Inr None)"

text \<open>
  \<open>for hub_msg in payload["M"]\<close>: the \<open>continue\<close> after the warning goes on with the next
  entry. The result is the exception that left the loop, if any.
\<close>

fun hub_msgs_loop ::
  "'w collab \<Rightarrow> client \<Rightarrow> json list \<Rightarrow> 'w st \<Rightarrow> exn option \<times> 'w st" where
  "hub_msgs_loop C c [] s = (None, s)"
| "hub_msgs_loop C c (hub_msg # rest) s =
     (case hub_msg_raw hub_msg of
        Inl e \<Rightarrow> (Some e, s)
      | Inr None \<Rightarrow> hub_msgs_loop C c rest s
      | Inr (Some raw) \<Rightarrow>
          (case rc_iterable raw of
             None \<Rightarrow> hub_msgs_loop C c rest (emit (LogUnknownFormat (py_type raw)) s)
           | Some iterable \<Rightarrow> hub_msgs_loop C c rest (handle_all C c iterable s)))"

text \<open>
  The \<open>elif\<close> condition and the access under it:
  \<open>"R" in payload and "RaceControlMessages" in payload["R"]\<close>, then
  \<open>payload["R"]["RaceControlMessages"]["Messages"]\<close>.
\<close>

definition snapshot_raw :: "json \<Rightarrow> exn + json option" where
  "snapshot_raw payload =
     bnd (py_contains ''R'' payload) (\<lambda>has_r.
       if has_r then
         bnd (py_getitem_str payload ''R'') (\<lambda>r.
         bnd (py_contains ''RaceControlMessages'' r) (\<lambda>has_rc.
           if has_rc then
             bnd (py_getitem_str payload ''R'') (\<lambda>r'.
             bnd (py_getitem_str r' ''RaceControlMessages'') (\<lambda>rc.
             bnd (py_getitem_str rc ''Messages'') (\<lambda>raw. Inr (Some raw))))
           else Inr None))
       else Inr None)"

text \<open>
  The statements between \<open>json.loads\<close> and \<open>yield payload\<close>. \<open>Inr True\<close>: control reaches
  the \<open>yield\<close>; \<open>Inr False\<close>: the \<open>continue\<close> of the \<open>elif\<close> branch went to the next frame
  without yielding; \<open>Inl\<close>: an exception left the generator.
\<close>

definition process_payload ::
  "'w collab \<Rightarrow> client \<Rightarrow> json \<Rightarrow> 'w st \<Rightarrow> (exn + bool) \<times> 'w st" where
  "process_payload C c payload s =
     (case py_contains ''M'' payload of
        Inl e \<Rightarrow> (Inl e, s)
      | Inr True \<Rightarrow>
          (case bnd (py_getitem_str payload ''M'') py_iter of
             Inl e \<Rightarrow> (Inl e, s)
           | Inr hub_msgs \<Rightarrow>
               (case hub_msgs_loop C c hub_msgs s of
                  (Some e, s') \<Rightarrow> (Inl e, s')
                | (None, s') \<Rightarrow> (Inr True, s')))
      | Inr False \<Rightarrow>
          (case snapshot_raw payload of
             Inl e \<Rightarrow> (Inl e, s)
           | Inr None \<Rightarrow> (Inr True, s)
           | Inr (Some raw) \<Rightarrow>
               (case rc_iterable raw of
                  None \<Rightarrow> (Inr False, emit (LogUnknownFormat (py_type raw)) s)
                | Some iterable \<Rightarrow> (Inr True, handle_all C c iterable s))))"

text \<open>
  A message of the websocket, by \<open>msg.type\<close>: \<open>TEXT\<close> with \<open>msg.data\<close>, \<open>CLOSED\<close>, \<open>ERROR\<close>, or
  any other type (binary, ping, pong).
\<close>

datatype ws_msg = Text string | Closed | Error | OtherType

text \<open>
  \<open>async for msg in self._ws\<close> over the messages the connection delivers before it ends.
  The result is the payloads yielded, the exception that ended the generator (if any),
  and the world and record of calls at that point. Of the exceptions of \<open>json.loads\<close>
  only \<open>JSONDecodeError\<close> is caught (and the frame skipped); any other one leaves the
  generator.
\<close>

fun messages_loop ::
  "'w collab \<Rightarrow> client \<Rightarrow> ws_msg list \<Rightarrow> 'w st \<Rightarrow> json list \<times> exn option \<times> 'w st" where
  "messages_loop C c [] s = ([], None, s)"
| "messages_loop C c (Text data # rest) s =
     (case json_loads C data of
        Inl err \<Rightarrow>
          (if err = JSONDecodeError then messages_loop C c rest s else ([], Some err, s))
      | Inr payload \<Rightarrow>
          (case process_payload C c payload s of
             (Inl e, s') \<Rightarrow> ([], Some e, s')
           | (Inr True, s') \<Rightarrow>
               (case messages_loop C c rest s' of
                  (ys, r, s'') \<Rightarrow> (payload # ys, r, s''))
           | (Inr False, s') \<Rightarrow> messages_loop C c rest s'))"
| "messages_loop C c (Closed # rest) s = ([], None, s)"
| "messages_loop C c (Error # rest) s = ([], None, s)"
| "messages_loop C c (OtherType # rest) s = messages_loop C c rest s"

definition messages ::
  "'w collab \<Rightarrow> client \<Rightarrow> ws_msg list \<Rightarrow> 'w st \<Rightarrow> json list \<times> exn option \<times> 'w st" where
  "messages C c frames s =
     (if ws c = None then ([], None, s) else messages_loop C c frames s)"

subsection \<open>\<open>connect\<close>, \<open>_ensure_connection\<close> and \<open>close\<close>\<close>

definition NEGOTIATE_URL :: string where
  "NEGOTIATE_URL = ''https://livetiming.formula1.com/signalr/negotiate''"

definition CONNECT_URL :: string where
  "CONNECT_URL = ''wss://livetiming.formula1.com/signalr/connect''"

definition HUB_DATA :: string where
  \<open>HUB_DATA = ''[{"name":"Streaming"}]''\<close>

definition SUBSCRIBE_MSG :: json where
  "SUBSCRIBE_MSG = JObj
     [(''H'', JStr ''Streaming''),
      (''M'', JStr ''Subscribe''),
      (''A'', JArr [JArr [JStr ''RaceControlMessages'']]),
      (''I'', JInt 1)]"

text \<open>
  What the network answers to one call of \<open>connect\<close>: the GET raises or returns a status,
  a body (\<open>resp.json()\<close> may raise) and the \<open>Set-Cookie\<close> header if there is one;
  \<open>ws_result\<close> is the answer to the websocket request once it is on its way, an
  exception or a handle; \<open>send_json\<close> raises or not; \<open>now\<close> is what \<open>utcnow()\<close> reads
  after the subscription.
\<close>

datatype http_reply = GetRaises exn | Reply nat "exn + json" "string option"

record attempt =
  reply :: http_reply
  ws_result :: "exn + nat"
  send_result :: "exn option"
  now :: int

text \<open>
  The \<open>async with\<close> block: \<open>raise_for_status\<close> raises from status 400 on; the token is
  \<open>data.get("ConnectionToken")\<close>, \<open>None\<close> when the key is missing.
\<close>

definition negotiate :: "attempt \<Rightarrow> exn + json \<times> string option" where
  "negotiate a =
     (case reply a of
        GetRaises e \<Rightarrow> Inl e
      | Reply status body cookie \<Rightarrow>
          if 400 \<le> status then Inl (ClientResponseError status)
          else bnd body (\<lambda>data.
               bnd (py_get data ''ConnectionToken'') (\<lambda>token. Inr (token, cookie))))"

definition negotiate_params :: "(string \<times> string) list" where
  "negotiate_params = [(''clientProtocol'', ''1.5''), (''connectionData'', HUB_DATA)]"

definition connect_params :: "json \<Rightarrow> (string \<times> json) list" where
  "connect_params token =
     [(''transport'', JStr ''webSockets''),
      (''clientProtocol'', JStr ''1.5''),
      (''connectionToken'', token),
      (''connectionData'', JStr HUB_DATA)]"

text \<open>\<open>if cookie:\<close> is false for a missing header and for an empty one.\<close>

definition connect_headers :: "string option \<Rightarrow> (string \<times> string) list" where
  "connect_headers cookie =
     [(''User-Agent'', ''BestHTTP''), (''Accept-Encoding'', ''gzip,identity'')]
     @ (case cookie of
          None \<Rightarrow> []
        | Some ck \<Rightarrow> if ck \<noteq> [] then [(''Cookie'', ck)] else [])"

text \<open>
  \<open>self._session.ws_connect(CONNECT_URL, params=params, headers=headers)\<close>. The
  session builds the request URL from \<open>params\<close> first, and the URL builder refuses a
  value that is \<open>None\<close> with \<open>TypeError\<close>: a call with \<open>connectionToken = None\<close> raises
  before anything is sent. For any other token the outcome is the attempt's \<open>ws_result\<close>,
  which may itself be an exception.
\<close>

definition ws_connect :: "json \<Rightarrow> attempt \<Rightarrow> exn + nat" where
  "ws_connect token a = (if token = JNull then Inl TypeError else ws_result a)"

text \<open>
  \<open>connect\<close>: the exception it raises (if any), the client afterwards and the calls made.
  \<open>_ws\<close> is assigned before the subscription is sent, \<open>_t0\<close> and \<open>_startup_cutoff\<close> after.
\<close>

definition connect ::
  "client \<Rightarrow> attempt \<Rightarrow> event list \<Rightarrow> exn option \<times> client \<times> event list" where
  "connect c a tr =
     (let tr1 = tr @ [HttpGet NEGOTIATE_URL negotiate_params] in
      case negotiate a of
        Inl e \<Rightarrow> (Some e, c, tr1)
      | Inr (token, cookie) \<Rightarrow>
          (let tr2 = tr1 @ [WsConnect CONNECT_URL (connect_params token) (connect_headers cookie)] in
           case ws_connect token a of
             Inl e \<Rightarrow> (Some e, c, tr2)
           | Inr h \<Rightarrow>
               (let c1 = c\<lparr>ws := Some h\<rparr>;
                    tr3 = tr2 @ [SendJson h SUBSCRIBE_MSG] in
                case send_result a of
                  Some e \<Rightarrow> (Some e, c1, tr3)
                | None \<Rightarrow>
                    (None,
                     c1\<lparr>t0 := now a, startup_cutoff := Some (now a - thirty_seconds)\<rparr>,
                     tr3))))"

text \<open>
  The constants of \<open>const.py\<close>, which is not part of the sources at hand: they are
  parameters.
\<close>

record retry_consts =
  FAST_RETRY_SEC :: int
  MAX_RETRY_SEC :: int
  BACK_OFF_FACTOR :: int

text \<open>
  The \<open>while True\<close> loop of \<open>_ensure_connection\<close>, run against the answers to the
  successive attempts. \<open>True\<close>: \<open>connect\<close> succeeded and the function returned; \<open>False\<close>:
  every attempt listed has failed and the loop is still running.
\<close>

fun retry_loop ::
  "retry_consts \<Rightarrow> int \<Rightarrow> client \<Rightarrow> attempt list \<Rightarrow> event list \<Rightarrow> bool \<times> client \<times> event list" where
  "retry_loop K delay c [] tr = (False, c, tr)"
| "retry_loop K delay c (a # rest) tr =
     (case connect c a tr of
        (None, c', tr') \<Rightarrow> (True, c', tr')
      | (Some err, c', tr') \<Rightarrow>
          retry_loop K (min (delay * BACK_OFF_FACTOR K) (MAX_RETRY_SEC K)) c' rest
            (tr' @ [LogReconnectFailed err delay, Sleep delay]))"

definition ensure_connection ::
  "retry_consts \<Rightarrow> client \<Rightarrow> attempt list \<Rightarrow> event list \<Rightarrow> bool \<times> client \<times> event list" where
  "ensure_connection K c attempts tr = retry_loop K (FAST_RETRY_SEC K) c attempts tr"

text \<open>
  \<open>close\<close>. The transport's own \<open>close()\<close> is taken to return normally: a failed closing
  handshake shows in the socket's state, and nothing in the client handles an exception
  of it.
\<close>

definition close :: "client \<Rightarrow> event list \<Rightarrow> client \<times> event list" where
  "close c tr =
     (case ws c of
        Some h \<Rightarrow> (c\<lparr>ws := None\<rparr>, tr @ [WsClose h])
      | None \<Rightarrow> (c, tr))"

section \<open>What a run shows\<close>

text \<open>
  Projections of the record of calls: the messages sent on the websocket, the raw items
  handed to \<open>_handle_rc\<close> (each one is passed to the transform first) and the delays
  slept.
\<close>

fun send_of :: "event \<Rightarrow> json list" where
  "send_of (SendJson h m) = [m]"
| "send_of ev = []"

definition sends :: "event list \<Rightarrow> json list" where
  "sends tr = concat (map send_of tr)"

fun item_of :: "event \<Rightarrow> json list" where
  "item_of (CleanRc rc_raw t) = [rc_raw]"
| "item_of ev = []"

definition handed_items :: "event list \<Rightarrow> json list" where
  "handed_items tr = concat (map item_of tr)"

fun sleep_of :: "event \<Rightarrow> int list" where
  "sleep_of (Sleep d) = [d]"
| "sleep_of ev = []"

definition sleeps :: "event list \<Rightarrow> int list" where
  "sleeps tr = concat (map sleep_of tr)"

text \<open>A text frame that \<open>json.loads\<close> rejects with \<open>JSONDecodeError\<close>.\<close>

definition undecodable :: "'w collab \<Rightarrow> ws_msg \<Rightarrow> bool" where
  "undecodable C m =
     (case m of Text data \<Rightarrow> json_loads C data = Inl JSONDecodeError | other \<Rightarrow> False)"

section \<open>Sample collaborators and inputs\<close>

text \<open>
  Concrete collaborators to run the client against: the world counts the calls of
  \<open>apply\<close>; the transform hands a raw item on as it is and raises on the item \<open>"boom"\<close>;
  a machine is registered, reports \<open>YELLOW\<close> and nothing raises. \<open>json.loads\<close> and
  \<open>fromisoformat\<close> are given on the few texts used below.
\<close>

definition sample_fromisoformat :: "string \<Rightarrow> exn + datetime" where
  "sample_fromisoformat str =
     (if str = ''2024-05-01T12:00:00'' then Inr (Naive 1714564800000000)
      else if str = ''2024-05-01T11:00:00'' then Inr (Naive 1714561200000000)
      else if str = ''2024-05-01T12:00:00+00:00'' then Inr (Aware 1714564800000000)
      else Inl ValueError)"

definition fresh_client :: client where
  "fresh_client = \<lparr> ws = None, t0 = 0, startup_cutoff = None \<rparr>"

definition live_client :: client where
  "live_client =
     \<lparr> ws = Some 7, t0 = 1714563000000000, startup_cutoff = Some 1714562970000000 \<rparr>"

definition ok_attempt :: attempt where
  "ok_attempt =
     \<lparr> reply = Reply 200 (Inr (JObj [(''ConnectionToken'', JStr ''T1'')])) (Some ''sid=1''),
       ws_result = Inr 7,
       send_result = None,
       now = 1714563000000000 \<rparr>"

definition snapshot_frame :: "json \<Rightarrow> json" where
  "snapshot_frame raw =
     JObj [(''R'', JObj [(''RaceControlMessages'', JObj [(''Messages'', raw)])])]"

definition feed_entry :: "json \<Rightarrow> json" where
  "feed_entry raw =
     JObj [(''H'', JStr ''Streaming''), (''M'', JStr ''feed''),
           (''A'', JArr [JStr ''RaceControlMessages'', JObj [(''Messages'', raw)]])]"

definition feed_frame :: "json \<Rightarrow> json" where
  "feed_frame raw = JObj [(''C'', JStr ''d-1''), (''M'', JArr [feed_entry raw])]"

definition item_noon :: json where
  "item_noon = JObj [(''utc'', JStr ''2024-05-01T12:00:00''), (''flag'', JStr ''YELLOW'')]"

definition item_eleven :: json where
  "item_eleven = JObj [(''utc'', JStr ''2024-05-01T11:00:00''), (''flag'', JStr ''GREEN'')]"

definition down_attempt :: attempt where
  "down_attempt =
     \<lparr> reply = GetRaises (OtherError ''timeout''),
       ws_result = Inr 7, send_result = None, now = 0 \<rparr>"

definition tokenless_attempt :: attempt where
  "tokenless_attempt =
     \<lparr> reply = Reply 200 (Inr (JObj [(''Url'', JStr ''/signalr'')])) None,
       ws_result = Inl TypeError,
       send_result = None,
       now = 1714563000000000 \<rparr>"

definition refused_attempt :: attempt where
  "refused_attempt =
     \<lparr> reply = Reply 503 (Inr (JObj [(''ConnectionToken'', JStr ''T1'')])) None,
       ws_result = Inr 7,
       send_result = None,
       now = 1714563000000000 \<rparr>"

text \<open>
  The frame texts used below, and what \<open>json.loads\<close> makes of them. \<open>text_deep\<close> is
  100000 opening brackets, on which the parser gives up with \<open>RecursionError\<close>.
\<close>

definition text_snapshot_two :: string where
  \<open>text_snapshot_two = ''{"R":{"RaceControlMessages":{"Messages":["boom",{"utc":"2024-05-01T12:00:00","flag":"YELLOW"}]}}}''\<close>

definition text_snapshot_number :: string where
  \<open>text_snapshot_number = ''{"R":{"RaceControlMessages":{"Messages":5}}}''\<close>

definition text_snapshot_bare :: string where
  \<open>text_snapshot_bare = ''{"R":{"RaceControlMessages":{}}}''\<close>

definition text_heartbeat :: string where
  \<open>text_heartbeat = ''{"C":"d-1","S":1}''\<close>

definition text_other_topic :: string where
  \<open>text_other_topic = ''{"R":{"Heartbeat":{"Utc":"2024-05-01T12:00:00"}},"I":"1"}''\<close>

definition text_deep :: string where
  "text_deep = replicate 100000 (CHR ''['')"

definition sample_loads :: "string \<Rightarrow> exn + json" where
  "sample_loads data =
     (if data = ''{}'' then Inr (JObj [])
      else if data = ''5'' then Inr (JInt 5)
      else if data = ''[]'' then Inr (JArr [])
      else if data = ''NaN'' then Inr (JFloat NaN)
      else if data = text_heartbeat then Inr (JObj [(''C'', JStr ''d-1''), (''S'', JInt 1)])
      else if data = text_other_topic
        then Inr (JObj [(''R'', JObj [(''Heartbeat'', JObj [(''Utc'', JStr ''2024-05-01T12:00:00'')])]),
                        (''I'', JStr ''1'')])
      else if data = text_snapshot_two
        then Inr (snapshot_frame (JArr [JStr ''boom'', item_noon]))
      else if data = text_snapshot_number then Inr (snapshot_frame (JInt 5))
      else if data = text_snapshot_bare
        then Inr (JObj [(''R'', JObj [(''RaceControlMessages'', JObj [])])])
      else if data = text_deep then Inl RecursionError
      else Inl JSONDecodeError)"

definition sample_collab :: "nat collab" where
  "sample_collab =
     \<lparr> json_loads = sample_loads,
       fromisoformat = sample_fromisoformat,
       clean_rc = (\<lambda>rc_raw t w.
          (if rc_raw = JStr ''boom'' then Inl (OtherError ''boom'') else Inr rc_raw, w)),
       has_machine = (\<lambda>w. True),
       machine_apply = (\<lambda>clean w. (Inr (JStr ''YELLOW'', JObj []), Suc w)),
       async_set = (\<lambda>entity state attrs w. (Inr (), w)) \<rparr>"




definition no_machine_collab :: "nat collab" where
  "no_machine_collab = sample_collab \<lparr> has_machine := (\<lambda>w. False) \<rparr>"

definition item_noon_zulu :: json where
  "item_noon_zulu = JObj [(''utc'', JStr ''2024-05-01T12:00:00Z''), (''flag'', JStr ''YELLOW'')]"

definition reconnect_attempt :: attempt where
  "reconnect_attempt = ok_attempt \<lparr> ws_result := Inr 8, now := 1714566600000000 \<rparr>"

section \<open>Properties\<close>

subsection \<open>The samples, evaluated\<close>

lemma text_deep_differs: "length t < 100000 \<Longrightarrow> t \<noteq> text_deep \<and> text_deep \<noteq> t"
  by (auto simp: text_deep_def)

lemma sample_loads_values:
  "sample_loads ''{}'' = Inr (JObj [])"
  "sample_loads ''5'' = Inr (JInt 5)"
  "sample_loads ''[]'' = Inr (JArr [])"
  "sample_loads ''NaN'' = Inr (JFloat NaN)"
  "sample_loads ''not json'' = Inl JSONDecodeError"
  "sample_loads text_heartbeat = Inr (JObj [(''C'', JStr ''d-1''), (''S'', JInt 1)])"
  "sample_loads text_other_topic
     = Inr (JObj [(''R'', JObj [(''Heartbeat'', JObj [(''Utc'', JStr ''2024-05-01T12:00:00'')])]),
                 (''I'', JStr ''1'')])"
  "sample_loads text_snapshot_two = Inr (snapshot_frame (JArr [JStr ''boom'', item_noon]))"
  "sample_loads text_snapshot_number = Inr (snapshot_frame (JInt 5))"
  "sample_loads text_snapshot_bare = Inr (JObj [(''R'', JObj [(''RaceControlMessages'', JObj [])])])"
  "sample_loads text_deep = Inl RecursionError"
  by (simp_all add: sample_loads_def text_heartbeat_def text_snapshot_two_def
      text_snapshot_number_def text_snapshot_bare_def text_other_topic_def text_deep_differs)

lemma sample_collab_fields:
  "json_loads sample_collab = sample_loads"
  "fromisoformat sample_collab = sample_fromisoformat"
  "clean_rc sample_collab rc_raw t w
     = (if rc_raw = JStr ''boom'' then Inl (OtherError ''boom'') else Inr rc_raw, w)"
  "has_machine sample_collab w = True"
  "machine_apply sample_collab clean w = (Inr (JStr ''YELLOW'', JObj []), Suc w)"
  "async_set sample_collab entity state attrs w = (Inr (), w)"
  by (simp_all add: sample_collab_def)

lemma live_client_fields:
  "ws live_client = Some 7" "t0 live_client = 1714563000000000"
  "startup_cutoff live_client = Some 1714562970000000"
  by (simp_all add: live_client_def)

lemma item_truthy:
  "truthy item_noon" "truthy item_eleven"
  "item_noon \<noteq> JStr ''boom''" "item_eleven \<noteq> JStr ''boom''"
  by (simp_all add: item_noon_def item_eleven_def)

lemma before_cutoff_sample:
  "before_cutoff sample_collab item_noon 1714562970000000 = Inr False"
  "before_cutoff sample_collab item_eleven 1714562970000000 = Inr True"
  by (simp_all add: before_cutoff_def bnd_def item_noon_def item_eleven_def
      sample_collab_fields sample_fromisoformat_def)

lemma snapshot_frame_raw:
  "py_contains ''M'' (snapshot_frame raw) = Inr False
   \<and> snapshot_raw (snapshot_frame raw) = Inr (Some raw)"
  by (simp add: snapshot_frame_def snapshot_raw_def bnd_def)

lemma feed_frame_raw:
  "py_getitem_str (feed_frame raw) ''M'' = Inr (JArr [feed_entry raw])
   \<and> hub_msg_raw (feed_entry raw) = Inr (Some raw)"
  by (simp add: feed_frame_def feed_entry_def hub_msg_raw_def bnd_def)


subsection \<open>What the loops add to the record of calls\<close>

lemma sends_append: "sends (xs @ ys) = sends xs @ sends ys"
  by (simp add: sends_def)

lemma handed_append: "handed_items (xs @ ys) = handed_items xs @ handed_items ys"
  by (simp add: handed_items_def)

lemma handle_rc_events:
  "\<exists>evs. snd (handle_rc C c x s) = snd s @ CleanRc x (t0 c) # evs
     \<and> sends evs = [] \<and> handed_items evs = []"
  by (auto simp: handle_rc_def handle_rc_body_def forward_to_machine_def
      async_update_flag_sensor_def emit_def Let_def sends_def handed_items_def
      split: prod.splits sum.splits option.splits bool.splits if_splits)

lemma handle_rc_sends: "sends (snd (handle_rc C c x s)) = sends (snd s)"
  using handle_rc_events [of C c x s] by (auto simp: sends_append sends_def)

lemma handle_rc_handed: "handed_items (snd (handle_rc C c x s)) = handed_items (snd s) @ [x]"
  using handle_rc_events [of C c x s] by (auto simp: handed_append handed_items_def)

lemma handle_all_sends: "sends (snd (handle_all C c xs s)) = sends (snd s)"
  by (induction xs arbitrary: s) (simp_all add: handle_rc_sends)

lemma handle_all_handed: "handed_items (snd (handle_all C c xs s)) = handed_items (snd s) @ xs"
  by (induction xs arbitrary: s) (simp_all add: handle_rc_handed)

lemma emit_sends: "sends (snd (emit (LogUnknownFormat n) s)) = sends (snd s)"
  by (simp add: emit_def sends_def)

lemma emit_handed: "handed_items (snd (emit (LogUnknownFormat n) s)) = handed_items (snd s)"
  by (simp add: emit_def handed_items_def)

lemma hub_msgs_loop_sends: "sends (snd (snd (hub_msgs_loop C c hs s))) = sends (snd s)"
  by (induction hs arbitrary: s)
     (simp_all add: handle_all_sends emit_sends split: sum.splits option.splits)

lemma process_payload_sends: "sends (snd (snd (process_payload C c p s))) = sends (snd s)"
proof -
  have hub: "sends tr' = sends (snd s)" if "hub_msgs_loop C c hs s = (r, w', tr')" for hs r w' tr'
    using hub_msgs_loop_sends [of C c hs s] that by simp
  show ?thesis
    unfolding process_payload_def
    by (auto simp: handle_all_sends emit_sends dest: hub
        split: sum.splits option.splits bool.splits prod.splits)
qed

lemma messages_loop_sends:
  "sends (snd (snd (snd (messages_loop C c frames s)))) = sends (snd s)"
proof (induction frames arbitrary: s)
  case Nil
  show ?case by simp
next
  case (Cons f rest)
  show ?case
  proof (cases f)
    case (Text data)
    show ?thesis
    proof (cases "json_loads C data")
      case (Inl err)
      with Text Cons show ?thesis by simp
    next
      case loaded: (Inr payload)
      obtain r s' where ps: "process_payload C c payload s = (r, s')"
        by (cases "process_payload C c payload s")
      have eq: "sends (snd s') = sends (snd s)"
        using process_payload_sends [of C c payload s] ps by simp
      have ih: "sends (snd (snd (snd (messages_loop C c rest s')))) = sends (snd s)"
        using Cons [of s'] eq by simp
      show ?thesis
      proof (cases r)
        case (Inl e)
        with Text loaded ps eq show ?thesis by simp
      next
        case (Inr b)
        with Text loaded ps ih show ?thesis
          by (cases b; cases "messages_loop C c rest s'") auto
      qed
    qed
  qed (use Cons in simp_all)
qed

lemma messages_sends: "sends (snd (snd (snd (messages C c frames s)))) = sends (snd s)"
  by (simp add: messages_def messages_loop_sends)

lemma hub_msgs_loop_handed:
  "\<exists>ys. \<forall>C c (s :: 'w st).
      handed_items (snd (snd (hub_msgs_loop C c hs s))) = handed_items (snd s) @ ys"
proof (induction hs)
  case Nil
  show ?case by simp
next
  case (Cons h hs)
  then obtain ys where ih: "\<And>C c (s :: 'w st).
      handed_items (snd (snd (hub_msgs_loop C c hs s))) = handed_items (snd s) @ ys"
    by blast
  show ?case
  proof (cases "hub_msg_raw h")
    case (Inl e)
    then show ?thesis by simp
  next
    case (Inr sel)
    show ?thesis
    proof (cases sel)
      case None
      with Inr ih show ?thesis by simp
    next
      case (Some raw)
      show ?thesis
      proof (cases "rc_iterable raw")
        case None
        with Inr Some ih show ?thesis by (simp add: emit_handed)
      next
        case (Some its)
        with Inr \<open>sel = Some raw\<close> ih show ?thesis by (simp add: handle_all_handed)
      qed
    qed
  qed
qed

lemma getitem_contains: "py_getitem_str p k = Inr v \<Longrightarrow> py_contains k p = Inr True"
  by (cases p) (auto split: option.splits dest: map_of_SomeD intro: rev_image_eqI)

lemma snapshot_handed:
  assumes "py_contains ''M'' p = Inr False" "snapshot_raw p = Inr (Some raw)"
    "rc_iterable raw = Some its"
  shows "handed_items (snd (snd (process_payload C c p s))) = handed_items (snd s) @ its"
  using assms by (simp add: process_payload_def handle_all_handed)

lemma feed_handed:
  assumes "py_getitem_str p ''M'' = Inr (JArr (hm # rest))" "hub_msg_raw hm = Inr (Some raw)"
    "rc_iterable raw = Some its"
  shows "snd (snd (process_payload C c p s)) = snd (snd (hub_msgs_loop C c rest (handle_all C c its s)))"
  using assms getitem_contains [OF assms(1)]
  by (simp add: process_payload_def bnd_def split: option.splits prod.splits)


lemma connect_sleeps: "sleeps (snd (snd (connect c a tr))) = sleeps tr"
  by (simp add: connect_def ws_connect_def Let_def sleeps_def
      split: sum.splits prod.splits option.splits)

lemma retry_loop_sleeps:
  assumes "1 \<le> BACK_OFF_FACTOR K"
  shows "0 \<le> delay \<Longrightarrow> delay \<le> MAX_RETRY_SEC K \<Longrightarrow>
     \<exists>ds. sleeps (snd (snd (retry_loop K delay c attempts tr))) = sleeps tr @ ds
       \<and> sorted ds \<and> (\<forall>d\<in>set ds. delay \<le> d \<and> d \<le> MAX_RETRY_SEC K)
       \<and> (ds \<noteq> [] \<longrightarrow> hd ds = delay)"
proof (induction attempts arbitrary: delay c tr)
  case Nil
  show ?case by simp
next
  case (Cons a rest)
  obtain r c' tr' where con: "connect c a tr = (r, c', tr')"
    by (cases "connect c a tr")
  have tr': "sleeps tr' = sleeps tr"
    using connect_sleeps [of c a tr] con by simp
  show ?case
  proof (cases r)
    case None
    with con tr' show ?thesis by simp
  next
    case (Some err)
    let ?d = "min (delay * BACK_OFF_FACTOR K) (MAX_RETRY_SEC K)"
    have up: "delay \<le> delay * BACK_OFF_FACTOR K"
      using mult_left_mono [OF assms Cons.prems(1)] by simp
    have d0: "0 \<le> ?d" and dm: "?d \<le> MAX_RETRY_SEC K" and dd: "delay \<le> ?d"
      using up Cons.prems by auto
    obtain ds where ds:
      "sleeps (snd (snd (retry_loop K ?d c' rest (tr' @ [LogReconnectFailed err delay, Sleep delay]))))
         = sleeps (tr' @ [LogReconnectFailed err delay, Sleep delay]) @ ds"
      "sorted ds" "\<forall>d\<in>set ds. ?d \<le> d \<and> d \<le> MAX_RETRY_SEC K"
      using Cons.IH [OF d0 dm] by blast
    have "sleeps (snd (snd (retry_loop K delay c (a # rest) tr))) = sleeps tr @ (delay # ds)"
      using con Some ds(1) tr' by (simp add: sleeps_def)
    moreover have "sorted (delay # ds)"
      using ds(2,3) dd by auto
    moreover have "\<forall>d\<in>set (delay # ds). delay \<le> d \<and> d \<le> MAX_RETRY_SEC K"
      using ds(3) dd Cons.prems(2) by auto
    ultimately show ?thesis by (intro exI [of _ "delay # ds"]) simp
  qed
qed

subsection \<open>The outcome of a frame does not depend on the collaborators\<close>




subsection \<open>Frames of neither shape, and "Messages" of neither form\<close>




subsection \<open>Negotiation\<close>

text \<open>
  C2. When the negotiation response has a status of 400 or more, \<open>connect\<close> raises
  before \<open>ws_connect\<close> is called. When the body is an object without "ConnectionToken",
  the token read from it is \<open>None\<close> and the call of \<open>ws_connect\<close> with it raises
  \<open>TypeError\<close> before a request is made. In both cases \<open>connect\<close> raises, the client is
  as before (no handle is stored), no subscription is sent, and \<open>_ensure_connection\<close> logs
  the error, sleeps and goes on to the next attempt.
\<close>

theorem negotiation_failure:
  "(reply a = Reply status body cookie \<and> 400 \<le> status \<longrightarrow>
      connect c a tr
        = (Some (ClientResponseError status), c, tr @ [HttpGet NEGOTIATE_URL negotiate_params])
      \<and> retry_loop K delay c (a # rest) tr
        = retry_loop K (min (delay * BACK_OFF_FACTOR K) (MAX_RETRY_SEC K)) c rest
            (tr @ [HttpGet NEGOTIATE_URL negotiate_params,
                   LogReconnectFailed (ClientResponseError status) delay, Sleep delay]))
   \<and> (reply a = Reply status (Inr (JObj kvs)) cookie \<and> status < 400
        \<and> ''ConnectionToken'' \<notin> set (map fst kvs) \<longrightarrow>
      connect c a tr
        = (Some TypeError, c,
           tr @ [HttpGet NEGOTIATE_URL negotiate_params,
                 WsConnect CONNECT_URL (connect_params JNull) (connect_headers cookie)])
      \<and> sends (snd (snd (connect c a tr))) = sends tr
      \<and> retry_loop K delay c (a # rest) tr
        = retry_loop K (min (delay * BACK_OFF_FACTOR K) (MAX_RETRY_SEC K)) c rest
            (tr @ [HttpGet NEGOTIATE_URL negotiate_params,
                   WsConnect CONNECT_URL (connect_params JNull) (connect_headers cookie),
                   LogReconnectFailed TypeError delay, Sleep delay]))"
proof (intro conjI impI)
  assume h: "reply a = Reply status body cookie \<and> 400 \<le> status"
  then show c1: "connect c a tr
        = (Some (ClientResponseError status), c, tr @ [HttpGet NEGOTIATE_URL negotiate_params])"
    by (simp add: connect_def ws_connect_def negotiate_def)
  show "retry_loop K delay c (a # rest) tr
        = retry_loop K (min (delay * BACK_OFF_FACTOR K) (MAX_RETRY_SEC K)) c rest
            (tr @ [HttpGet NEGOTIATE_URL negotiate_params,
                   LogReconnectFailed (ClientResponseError status) delay, Sleep delay])"
    by (simp add: c1)
next
  assume h: "reply a = Reply status (Inr (JObj kvs)) cookie \<and> status < 400
        \<and> ''ConnectionToken'' \<notin> set (map fst kvs)"
  then have none: "map_of kvs ''ConnectionToken'' = None"
    by (simp add: map_of_eq_None_iff)
  with h have n: "negotiate a = Inr (JNull, cookie)"
    by (simp add: negotiate_def bnd_def)
  show c2: "connect c a tr
        = (Some TypeError, c,
           tr @ [HttpGet NEGOTIATE_URL negotiate_params,
                 WsConnect CONNECT_URL (connect_params JNull) (connect_headers cookie)])"
    by (simp add: connect_def n ws_connect_def)
  show "sends (snd (snd (connect c a tr))) = sends tr"
    by (simp add: c2 sends_def)
  show "retry_loop K delay c (a # rest) tr
        = retry_loop K (min (delay * BACK_OFF_FACTOR K) (MAX_RETRY_SEC K)) c rest
            (tr @ [HttpGet NEGOTIATE_URL negotiate_params,
                   WsConnect CONNECT_URL (connect_params JNull) (connect_headers cookie),
                   LogReconnectFailed TypeError delay, Sleep delay])"
    by (simp add: c2)
qed

theorem negotiation_failure_witness:
  "reply refused_attempt = Reply 503 (Inr (JObj [(''ConnectionToken'', JStr ''T1'')])) None
   \<and> (400::nat) \<le> 503
   \<and> connect live_client refused_attempt []
       = (Some (ClientResponseError 503), live_client, [HttpGet NEGOTIATE_URL negotiate_params])
   \<and> reply tokenless_attempt = Reply 200 (Inr (JObj [(''Url'', JStr ''/signalr'')])) None
   \<and> (200::nat) < 400 \<and> ''ConnectionToken'' \<notin> set (map fst [(''Url'', JStr ''/signalr'')])
   \<and> connect fresh_client tokenless_attempt []
       = (Some TypeError, fresh_client,
          [HttpGet NEGOTIATE_URL negotiate_params,
           WsConnect CONNECT_URL (connect_params JNull) (connect_headers None)])
   \<and> ensure_connection \<lparr>FAST_RETRY_SEC = 5, MAX_RETRY_SEC = 60, BACK_OFF_FACTOR = 2\<rparr>
        fresh_client [tokenless_attempt, refused_attempt] []
       = (False, fresh_client,
          [HttpGet NEGOTIATE_URL negotiate_params,
           WsConnect CONNECT_URL (connect_params JNull) (connect_headers None),
           LogReconnectFailed TypeError 5, Sleep 5,
           HttpGet NEGOTIATE_URL negotiate_params,
           LogReconnectFailed (ClientResponseError 503) 10, Sleep 10])"
proof -
  let ?K = "\<lparr>FAST_RETRY_SEC = 5, MAX_RETRY_SEC = 60, BACK_OFF_FACTOR = 2\<rparr>"
  have r: "reply refused_attempt = Reply 503 (Inr (JObj [(''ConnectionToken'', JStr ''T1'')])) None
      \<and> (400::nat) \<le> 503"
    by (simp add: refused_attempt_def)
  have t: "reply tokenless_attempt = Reply 200 (Inr (JObj [(''Url'', JStr ''/signalr'')])) None
      \<and> (200::nat) < 400 \<and> ''ConnectionToken'' \<notin> set (map fst [(''Url'', JStr ''/signalr'')])"
    by (simp add: tokenless_attempt_def)
  note refused = negotiation_failure [where K = ?K and body = "Inr (JObj [(''ConnectionToken'', JStr ''T1'')])",
      THEN conjunct1, rule_format, OF r]
  note tokenless = negotiation_failure [where K = ?K, THEN conjunct2, rule_format, OF t]
  have c1: "connect live_client refused_attempt []
       = (Some (ClientResponseError 503), live_client, [HttpGet NEGOTIATE_URL negotiate_params])"
    using refused [where c = live_client and tr = "[]", THEN conjunct1] by simp
  have c2: "connect fresh_client tokenless_attempt []
       = (Some TypeError, fresh_client,
          [HttpGet NEGOTIATE_URL negotiate_params,
           WsConnect CONNECT_URL (connect_params JNull) (connect_headers None)])"
    using tokenless [where c = fresh_client and tr = "[]", THEN conjunct1] by simp
  have step1: "retry_loop ?K 5 fresh_client [tokenless_attempt, refused_attempt] []
       = retry_loop ?K 10 fresh_client [refused_attempt]
           [HttpGet NEGOTIATE_URL negotiate_params,
            WsConnect CONNECT_URL (connect_params JNull) (connect_headers None),
            LogReconnectFailed TypeError 5, Sleep 5]"
    using tokenless [where c = fresh_client and tr = "[]" and delay = 5
        and rest = "[refused_attempt]", THEN conjunct2, THEN conjunct2]
    by simp
  have step2: "retry_loop ?K 10 fresh_client [refused_attempt] tr
       = (False, fresh_client,
          tr @ [HttpGet NEGOTIATE_URL negotiate_params,
                LogReconnectFailed (ClientResponseError 503) 10, Sleep 10])" for tr
    using refused [where c = fresh_client and tr = tr and delay = 10 and rest = "[]",
        THEN conjunct2]
    by simp
  show ?thesis
    using r t c1 c2 by (simp add: ensure_connection_def step1 step2 del: retry_loop.simps)
qed

subsection \<open>The startup cutoff\<close>

lemma aware_timestamp_raises:
  assumes "clean_rc C rc_raw (t0 c) w = (Inr clean, w')" and "truthy clean"
    and "startup_cutoff c = Some cutoff"
    and "py_getitem_str clean ''utc'' = Inr utc" and "py_replace_Z utc = Inr str"
    and "fromisoformat C str = Inr (Aware t)"
  shows "handle_rc C c rc_raw (w, tr)
    = (w', tr @ [CleanRc rc_raw (t0 c), LogTransformFailed TypeError])"
  using assms
  by (simp add: handle_rc_def handle_rc_body_def before_cutoff_def bnd_def emit_def)

text \<open>
  C3 (naive timestamps; \<open>apply\<close> needs a registered machine). Let the transform yield a non-empty record whose \<open>"utc"\<close> string parses to
  a naive datetime \<open>t\<close>, on a client whose cutoff is \<open>cutoff\<close>. If \<open>t < cutoff\<close> the record
  is dropped: the only call made is the transform. If \<open>cutoff \<le> t\<close> and a flag machine is
  registered, \<open>apply(record)\<close> is the next call; without a registered machine nothing is
  called. A successful \<open>connect\<close> sets \<open>_t0\<close> to the time read after subscribing and
  the cutoff to 30 seconds before it; a failed one leaves both as they were.
\<close>

theorem startup_filter:
  assumes "clean_rc C rc_raw (t0 c) w = (Inr clean, w')" and "truthy clean"
    and "startup_cutoff c = Some cutoff"
    and "py_getitem_str clean ''utc'' = Inr utc" and "py_replace_Z utc = Inr str"
    and "fromisoformat C str = Inr (Naive t)"
  shows "(t < cutoff \<longrightarrow> handle_rc C c rc_raw (w, tr) = (w', tr @ [CleanRc rc_raw (t0 c)]))
    \<and> (cutoff \<le> t \<and> has_machine C w' \<longrightarrow>
         (\<exists>evs. snd (handle_rc C c rc_raw (w, tr))
            = tr @ [CleanRc rc_raw (t0 c), MachineApply clean] @ evs))
    \<and> (cutoff \<le> t \<and> \<not> has_machine C w' \<longrightarrow>
         handle_rc C c rc_raw (w, tr) = (w', tr @ [CleanRc rc_raw (t0 c)]))
    \<and> (connect c a tr0 = (None, c', tr1) \<longrightarrow>
         t0 c' = now a \<and> startup_cutoff c' = Some (now a - thirty_seconds))
    \<and> (connect c a tr0 = (Some e, c', tr1) \<longrightarrow>
         t0 c' = t0 c \<and> startup_cutoff c' = startup_cutoff c)"
proof -
  have bc: "before_cutoff C clean cutoff = Inr (t < cutoff)"
    using assms(4,5,6) by (simp add: before_cutoff_def bnd_def)
  have body: "handle_rc_body C c rc_raw (w, tr)
      = (if t < cutoff then (Inr (), (w', tr @ [CleanRc rc_raw (t0 c)]))
         else forward_to_machine C clean (w', tr @ [CleanRc rc_raw (t0 c)]))"
    using assms(1,2,3) bc by (simp add: handle_rc_body_def)
  have early: "t < cutoff \<longrightarrow> handle_rc C c rc_raw (w, tr) = (w', tr @ [CleanRc rc_raw (t0 c)])"
    by (simp add: handle_rc_def body)
  have fwd: "cutoff \<le> t \<and> has_machine C w' \<longrightarrow>
         (\<exists>evs. snd (handle_rc C c rc_raw (w, tr))
            = tr @ [CleanRc rc_raw (t0 c), MachineApply clean] @ evs)"
    by (auto simp: handle_rc_def body forward_to_machine_def async_update_flag_sensor_def
        emit_def split: prod.splits sum.splits)
  have nom: "cutoff \<le> t \<and> \<not> has_machine C w' \<longrightarrow>
         handle_rc C c rc_raw (w, tr) = (w', tr @ [CleanRc rc_raw (t0 c)])"
    by (simp add: handle_rc_def body forward_to_machine_def)
  have ok: "connect c a tr0 = (None, c', tr1) \<longrightarrow>
         t0 c' = now a \<and> startup_cutoff c' = Some (now a - thirty_seconds)"
    by (auto simp: connect_def ws_connect_def Let_def split: sum.splits prod.splits option.splits if_splits)
  have ko: "connect c a tr0 = (Some e, c', tr1) \<longrightarrow>
         t0 c' = t0 c \<and> startup_cutoff c' = startup_cutoff c"
    by (auto simp: connect_def ws_connect_def Let_def split: sum.splits prod.splits option.splits if_splits)
  show ?thesis
    using early fwd nom ok ko by blast
qed

theorem startup_filter_witness:
  "clean_rc sample_collab item_eleven (t0 live_client) 0 = (Inr item_eleven, 0)
   \<and> truthy item_eleven \<and> startup_cutoff live_client = Some 1714562970000000
   \<and> py_getitem_str item_eleven ''utc'' = Inr (JStr ''2024-05-01T11:00:00'')
   \<and> py_replace_Z (JStr ''2024-05-01T11:00:00'') = Inr ''2024-05-01T11:00:00''
   \<and> fromisoformat sample_collab ''2024-05-01T11:00:00'' = Inr (Naive 1714561200000000)
   \<and> (1714561200000000 :: int) < 1714562970000000
   \<and> handle_rc sample_collab live_client item_eleven (0, [])
       = (0, [CleanRc item_eleven 1714563000000000])
   \<and> clean_rc sample_collab item_noon (t0 live_client) 0 = (Inr item_noon, 0)
   \<and> truthy item_noon
   \<and> py_getitem_str item_noon ''utc'' = Inr (JStr ''2024-05-01T12:00:00'')
   \<and> py_replace_Z (JStr ''2024-05-01T12:00:00'') = Inr ''2024-05-01T12:00:00''
   \<and> fromisoformat sample_collab ''2024-05-01T12:00:00'' = Inr (Naive 1714564800000000)
   \<and> (1714562970000000 :: int) \<le> 1714564800000000 \<and> has_machine sample_collab 0
   \<and> handle_rc sample_collab live_client item_noon (0, [])
       = (1, [CleanRc item_noon 1714563000000000, MachineApply item_noon,
              AsyncSet ''sensor.f1_flag'' (JStr ''YELLOW'') (JObj [])])
   \<and> fst (connect live_client reconnect_attempt []) = None
   \<and> startup_cutoff (fst (snd (connect live_client reconnect_attempt [])))
       = Some 1714566570000000
   \<and> fst (connect live_client down_attempt []) = Some (OtherError ''timeout'')
   \<and> startup_cutoff (fst (snd (connect live_client down_attempt []))) = Some 1714562970000000"
proof -
  have e1: "clean_rc sample_collab item_eleven (t0 live_client) 0 = (Inr item_eleven, 0)"
    and e2: "truthy item_eleven"
    and cut: "startup_cutoff live_client = Some 1714562970000000"
    and e4: "py_getitem_str item_eleven ''utc'' = Inr (JStr ''2024-05-01T11:00:00'')"
    and e5: "py_replace_Z (JStr ''2024-05-01T11:00:00'') = Inr ''2024-05-01T11:00:00''"
    and e6: "fromisoformat sample_collab ''2024-05-01T11:00:00'' = Inr (Naive 1714561200000000)"
    by (simp_all add: sample_collab_fields item_truthy live_client_fields item_eleven_def
        sample_fromisoformat_def)
  have n1: "clean_rc sample_collab item_noon (t0 live_client) 0 = (Inr item_noon, 0)"
    and n2: "truthy item_noon"
    and n4: "py_getitem_str item_noon ''utc'' = Inr (JStr ''2024-05-01T12:00:00'')"
    and n5: "py_replace_Z (JStr ''2024-05-01T12:00:00'') = Inr ''2024-05-01T12:00:00''"
    and n6: "fromisoformat sample_collab ''2024-05-01T12:00:00'' = Inr (Naive 1714564800000000)"
    by (simp_all add: sample_collab_fields item_truthy item_noon_def sample_fromisoformat_def)
  have ok: "connect live_client reconnect_attempt [] =
     (None, \<lparr>ws = Some 8, t0 = 1714566600000000, startup_cutoff = Some 1714566570000000\<rparr>,
      [HttpGet NEGOTIATE_URL negotiate_params,
       WsConnect CONNECT_URL (connect_params (JStr ''T1'')) (connect_headers (Some ''sid=1'')),
       SendJson 8 SUBSCRIBE_MSG])"
    by (simp add: connect_def ws_connect_def negotiate_def reconnect_attempt_def ok_attempt_def live_client_def
        bnd_def thirty_seconds_def)
  have ko: "connect live_client down_attempt []
      = (Some (OtherError ''timeout''), live_client, [HttpGet NEGOTIATE_URL negotiate_params])"
    by (simp add: connect_def ws_connect_def negotiate_def down_attempt_def)
  note early = startup_filter [OF e1 e2 cut e4 e5 e6, where tr = "[]" and a = ok_attempt
      and c' = live_client and ?tr0.0 = "[]", THEN conjunct1, rule_format]
  note conn = startup_filter [OF e1 e2 cut e4 e5 e6, THEN conjunct2, THEN conjunct2, THEN conjunct2,
      THEN conjunct1, rule_format, OF ok]
  note fail = startup_filter [OF e1 e2 cut e4 e5 e6, THEN conjunct2, THEN conjunct2, THEN conjunct2,
      THEN conjunct2, rule_format, OF ko]
  have noon: "handle_rc sample_collab live_client item_noon (0, [])
       = (1, [CleanRc item_noon 1714563000000000, MachineApply item_noon,
              AsyncSet ''sensor.f1_flag'' (JStr ''YELLOW'') (JObj [])])"
    by (simp add: handle_rc_def handle_rc_body_def sample_collab_fields live_client_fields
        before_cutoff_sample item_truthy forward_to_machine_def async_update_flag_sensor_def)
  show ?thesis
    using e1 e2 cut e4 e5 e6 n1 n2 n4 n5 n6 early noon ok ko conn fail
      startup_filter [OF n1 n2 cut n4 n5 n6, where tr = "[]"]
    by (simp add: live_client_fields sample_collab_fields thirty_seconds_def)
qed

text \<open>
  C3 does not hold for every record at or after the cutoff. With no flag machine
  registered the record (12:00:00, cutoff 11:29:30) passes the filter and nothing
  is called. And a timestamp ending in \<open>Z\<close> becomes an aware datetime, whose comparison
  with the naive cutoff raises: the record is logged as failed and never applied.
\<close>

theorem startup_filter_counterexample:
  "startup_cutoff live_client = Some 1714562970000000
   \<and> clean_rc no_machine_collab item_noon (t0 live_client) 0 = (Inr item_noon, 0)
   \<and> truthy item_noon
   \<and> before_cutoff no_machine_collab item_noon 1714562970000000 = Inr False
   \<and> handle_rc no_machine_collab live_client item_noon (0, [])
       = (0, [CleanRc item_noon 1714563000000000])
   \<and> clean_rc sample_collab item_noon_zulu (t0 live_client) 0 = (Inr item_noon_zulu, 0)
   \<and> truthy item_noon_zulu
   \<and> py_replace_Z (JStr ''2024-05-01T12:00:00Z'') = Inr ''2024-05-01T12:00:00+00:00''
   \<and> fromisoformat sample_collab ''2024-05-01T12:00:00+00:00'' = Inr (Aware 1714564800000000)
   \<and> handle_rc sample_collab live_client item_noon_zulu (0, [])
       = (0, [CleanRc item_noon_zulu 1714563000000000, LogTransformFailed TypeError])"
  by (simp add: no_machine_collab_def sample_collab_def live_client_def item_noon_def
      item_noon_zulu_def before_cutoff_def bnd_def sample_fromisoformat_def
      handle_rc_def handle_rc_body_def forward_to_machine_def emit_def)

subsection \<open>Back-off\<close>

text \<open>
  C4 (with a floor that is not negative). With a factor of at least 1 and \<open>0 \<le> D0 \<le> Dmax\<close>, the delays slept in one
  run of \<open>_ensure_connection\<close> are non-decreasing, none exceeds \<open>Dmax\<close>, and the first one
  is \<open>D0\<close> whatever state the client is in (so also after an earlier successful connect).
\<close>

theorem backoff_delays:
  assumes "1 \<le> BACK_OFF_FACTOR K" and "0 \<le> FAST_RETRY_SEC K"
    and "FAST_RETRY_SEC K \<le> MAX_RETRY_SEC K"
  shows "\<exists>ds. sleeps (snd (snd (ensure_connection K c attempts tr))) = sleeps tr @ ds
       \<and> sorted ds \<and> (\<forall>d\<in>set ds. d \<le> MAX_RETRY_SEC K)
       \<and> (ds \<noteq> [] \<longrightarrow> hd ds = FAST_RETRY_SEC K)"
  using retry_loop_sleeps [OF assms, of c attempts tr]
  unfolding ensure_connection_def by blast

theorem backoff_delays_witness:
  "1 \<le> BACK_OFF_FACTOR \<lparr>FAST_RETRY_SEC = 5, MAX_RETRY_SEC = 60, BACK_OFF_FACTOR = 2\<rparr>
   \<and> 0 \<le> FAST_RETRY_SEC \<lparr>FAST_RETRY_SEC = 5, MAX_RETRY_SEC = 60, BACK_OFF_FACTOR = 2\<rparr>
   \<and> FAST_RETRY_SEC \<lparr>FAST_RETRY_SEC = 5, MAX_RETRY_SEC = 60, BACK_OFF_FACTOR = 2\<rparr>
       \<le> MAX_RETRY_SEC \<lparr>FAST_RETRY_SEC = 5, MAX_RETRY_SEC = 60, BACK_OFF_FACTOR = 2\<rparr>
   \<and> sleeps (snd (snd (ensure_connection
         \<lparr>FAST_RETRY_SEC = 5, MAX_RETRY_SEC = 60, BACK_OFF_FACTOR = 2\<rparr> fresh_client
         [down_attempt, down_attempt, down_attempt, down_attempt, down_attempt, ok_attempt] [])))
       = [5, 10, 20, 40, 60]
   \<and> (\<exists>ds. sleeps (snd (snd (ensure_connection
         \<lparr>FAST_RETRY_SEC = 5, MAX_RETRY_SEC = 60, BACK_OFF_FACTOR = 2\<rparr> fresh_client
         [down_attempt, down_attempt, down_attempt, down_attempt, down_attempt, ok_attempt] [])))
       = sleeps [] @ ds
       \<and> sorted ds \<and> (\<forall>d\<in>set ds. d \<le> 60) \<and> (ds \<noteq> [] \<longrightarrow> hd ds = 5))"
proof -
  let ?K = "\<lparr>FAST_RETRY_SEC = 5, MAX_RETRY_SEC = 60, BACK_OFF_FACTOR = 2\<rparr>"
  have h1: "1 \<le> BACK_OFF_FACTOR ?K" and h2: "0 \<le> FAST_RETRY_SEC ?K"
    and h3: "FAST_RETRY_SEC ?K \<le> MAX_RETRY_SEC ?K"
    by simp_all
  have run: "sleeps (snd (snd (ensure_connection ?K fresh_client
         [down_attempt, down_attempt, down_attempt, down_attempt, down_attempt, ok_attempt] [])))
       = [5, 10, 20, 40, 60]"
    by (simp add: ensure_connection_def connect_def ws_connect_def negotiate_def down_attempt_def
        ok_attempt_def sleeps_def bnd_def)
  show ?thesis
    using h1 h2 h3 run backoff_delays [OF h1 h2 h3, of fresh_client
        "[down_attempt, down_attempt, down_attempt, down_attempt, down_attempt, ok_attempt]" "[]"]
    by simp
qed

text \<open>
  C4 does not hold under \<open>F \<ge> 1\<close> and \<open>D0 \<le> Dmax\<close> alone: with a negative floor the
  product \<open>delay * F\<close> moves away from the ceiling, and the delays decrease.
\<close>

theorem backoff_negative_floor_counterexample:
  "1 \<le> BACK_OFF_FACTOR \<lparr>FAST_RETRY_SEC = -1, MAX_RETRY_SEC = 60, BACK_OFF_FACTOR = 2\<rparr>
   \<and> FAST_RETRY_SEC \<lparr>FAST_RETRY_SEC = -1, MAX_RETRY_SEC = 60, BACK_OFF_FACTOR = 2\<rparr>
       \<le> MAX_RETRY_SEC \<lparr>FAST_RETRY_SEC = -1, MAX_RETRY_SEC = 60, BACK_OFF_FACTOR = 2\<rparr>
   \<and> sleeps (snd (snd (ensure_connection
         \<lparr>FAST_RETRY_SEC = -1, MAX_RETRY_SEC = 60, BACK_OFF_FACTOR = 2\<rparr>
         fresh_client [down_attempt, down_attempt] []))) = [-1, -2]
   \<and> \<not> sorted [-1, -2 :: int]"
  by (simp add: ensure_connection_def connect_def ws_connect_def negotiate_def down_attempt_def sleeps_def)

subsection \<open>Exceptions of the collaborators\<close>



subsection \<open>List and mapping\<close>

text \<open>
  C6. Let a list \<open>xs\<close> and a dict \<open>kvs\<close> hold the same items (as multisets). For a
  snapshot frame (\<open>p\<close> with the list, \<open>q\<close> with the dict as its "Messages") and for a feed
  frame whose first hub message carries them (\<open>p'\<close> with the list, \<open>q'\<close> with the dict, the
  later hub messages being the same), the raw items handed to \<open>_handle_rc\<close> are the same
  multiset, and the list's items are handed over in list order.
\<close>

theorem list_and_mapping_same_items:
  assumes "mset (map snd kvs) = mset xs"
    and "py_contains ''M'' p = Inr False" and "snapshot_raw p = Inr (Some (JArr xs))"
    and "py_contains ''M'' q = Inr False" and "snapshot_raw q = Inr (Some (JObj kvs))"
    and "py_getitem_str p' ''M'' = Inr (JArr (hm # rest))"
    and "hub_msg_raw hm = Inr (Some (JArr xs))"
    and "py_getitem_str q' ''M'' = Inr (JArr (hn # rest))"
    and "hub_msg_raw hn = Inr (Some (JObj kvs))"
  shows "handed_items (snd (snd (process_payload C c p s))) = handed_items (snd s) @ xs
    \<and> mset (handed_items (snd (snd (process_payload C c q s))))
        = mset (handed_items (snd (snd (process_payload C c p s))))
    \<and> (\<exists>zs. handed_items (snd (snd (process_payload C c p' s))) = handed_items (snd s) @ xs @ zs)
    \<and> mset (handed_items (snd (snd (process_payload C c q' s))))
        = mset (handed_items (snd (snd (process_payload C c p' s))))"
proof -
  have a: "handed_items (snd (snd (process_payload C c p s))) = handed_items (snd s) @ xs"
    by (rule snapshot_handed [OF assms(2,3)]) simp
  have b: "handed_items (snd (snd (process_payload C c q s))) = handed_items (snd s) @ map snd kvs"
    by (rule snapshot_handed [OF assms(4,5)]) simp
  obtain zs where zs: "\<And>C c (s :: 'a st).
      handed_items (snd (snd (hub_msgs_loop C c rest s))) = handed_items (snd s) @ zs"
    using hub_msgs_loop_handed [of rest] by blast
  have c: "handed_items (snd (snd (process_payload C c p' s))) = handed_items (snd s) @ xs @ zs"
    by (subst feed_handed [OF assms(6,7)]) (simp_all add: zs handle_all_handed)
  have d: "handed_items (snd (snd (process_payload C c q' s)))
      = handed_items (snd s) @ map snd kvs @ zs"
    by (subst feed_handed [OF assms(8,9)]) (simp_all add: zs handle_all_handed)
  have m: "mset (handed_items (snd s) @ map snd kvs) = mset (handed_items (snd s) @ xs)"
    using assms(1) by simp
  have m': "mset (handed_items (snd s) @ map snd kvs @ zs) = mset (handed_items (snd s) @ xs @ zs)"
    using assms(1) by simp
  show ?thesis
    using a b c d m m' by auto
qed

theorem list_and_mapping_same_items_witness:
  "mset (map snd [(''7'', item_eleven), (''3'', item_noon)]) = mset [item_noon, item_eleven]
   \<and> handed_items (snd (snd (process_payload sample_collab live_client
        (snapshot_frame (JArr [item_noon, item_eleven])) (0, [])))) = [item_noon, item_eleven]
   \<and> handed_items (snd (snd (process_payload sample_collab live_client
        (snapshot_frame (JObj [(''7'', item_eleven), (''3'', item_noon)])) (0, []))))
        = [item_eleven, item_noon]
   \<and> mset (handed_items (snd (snd (process_payload sample_collab live_client
        (feed_frame (JObj [(''7'', item_eleven), (''3'', item_noon)])) (0, [])))))
      = mset (handed_items (snd (snd (process_payload sample_collab live_client
        (feed_frame (JArr [item_noon, item_eleven])) (0, [])))))"
proof -
  let ?kvs = "[(''7'', item_eleven), (''3'', item_noon)]"
  let ?xs = "[item_noon, item_eleven]"
  have m: "mset (map snd ?kvs) = mset ?xs" by simp
  have b: "handed_items (snd (snd (process_payload sample_collab live_client
        (snapshot_frame (JObj ?kvs)) (0, [])))) = [item_eleven, item_noon]"
    using snapshot_handed [of "snapshot_frame (JObj ?kvs)" "JObj ?kvs" "map snd ?kvs"
        sample_collab live_client "(0, [])"] snapshot_frame_raw [of "JObj ?kvs"]
    by (simp add: handed_items_def)
  show ?thesis
    using m b list_and_mapping_same_items [OF m
        conjunct1 [OF snapshot_frame_raw] conjunct2 [OF snapshot_frame_raw]
        conjunct1 [OF snapshot_frame_raw] conjunct2 [OF snapshot_frame_raw]
        conjunct1 [OF feed_frame_raw] conjunct2 [OF feed_frame_raw]
        conjunct1 [OF feed_frame_raw] conjunct2 [OF feed_frame_raw],
        of sample_collab live_client "(0, [])"]
    by (simp add: handed_items_def)
qed

subsection \<open>Closing\<close>

text \<open>
  C7. \<open>close()\<close> is idempotent: after one call the client holds no handle, and a second
  call, like any call made without a handle, changes nothing and releases nothing.
\<close>

theorem close_idempotent:
  "ws (fst (close c tr)) = None
   \<and> close (fst (close c tr)) tr' = (fst (close c tr), tr')
   \<and> (ws c = None \<longrightarrow> close c tr = (c, tr))"
  by (auto simp: close_def split: option.splits)

theorem close_idempotent_witness:
  "close live_client [] = (live_client\<lparr>ws := None\<rparr>, [WsClose 7])
   \<and> close (fst (close live_client [])) [WsClose 7] = (live_client\<lparr>ws := None\<rparr>, [WsClose 7])
   \<and> ws fresh_client = None \<and> close fresh_client [] = (fresh_client, [])"
  using close_idempotent [of live_client "[]" "[WsClose 7]"]
        close_idempotent [of fresh_client "[]" "[]"]
  by (simp add: close_def live_client_def fresh_client_def)

subsection \<open>The subscription\<close>

text \<open>
  C8. A successful \<open>connect\<close> makes three calls, in this order: the negotiation GET, the
  websocket connect, and one \<open>send_json\<close> of the subscription on the new handle, so the
  subscription directly follows the connect and precedes any frame. The message is exactly
  \<open>{"H": "Streaming", "M": "Subscribe", "A": [["RaceControlMessages"]], "I": 1}\<close>, it is
  sent once, and consuming frames with \<open>messages()\<close> afterwards sends nothing more.
\<close>

theorem subscribe_sent_once:
  "connect c a tr = (None, c', tr') \<Longrightarrow>
     (\<exists>token cookie h. ws c' = Some h
        \<and> tr' = tr @ [HttpGet NEGOTIATE_URL negotiate_params,
                      WsConnect CONNECT_URL (connect_params token) (connect_headers cookie),
                      SendJson h SUBSCRIBE_MSG])
     \<and> sends tr' = sends tr @ [SUBSCRIBE_MSG]
     \<and> sends (snd (snd (snd (messages C c' frames (w, tr'))))) = sends tr'
     \<and> SUBSCRIBE_MSG = JObj [(''H'', JStr ''Streaming''), (''M'', JStr ''Subscribe''),
          (''A'', JArr [JArr [JStr ''RaceControlMessages'']]), (''I'', JInt 1)]"
proof -
  assume ok: "connect c a tr = (None, c', tr')"
  then have shape: "\<exists>token cookie h. ws c' = Some h
        \<and> tr' = tr @ [HttpGet NEGOTIATE_URL negotiate_params,
                      WsConnect CONNECT_URL (connect_params token) (connect_headers cookie),
                      SendJson h SUBSCRIBE_MSG]"
    by (auto simp: connect_def ws_connect_def Let_def split: sum.splits prod.splits option.splits if_splits)
  then have "sends tr' = sends tr @ [SUBSCRIBE_MSG]"
    by (auto simp: sends_def)
  moreover have "sends (snd (snd (snd (messages C c' frames (w, tr'))))) = sends tr'"
    using messages_sends [of C c' frames "(w, tr')"] by simp
  ultimately show ?thesis using shape by (simp add: SUBSCRIBE_MSG_def)
qed

theorem subscribe_sent_once_witness:
  "connect fresh_client ok_attempt [] =
     (None, live_client,
      [HttpGet NEGOTIATE_URL negotiate_params,
       WsConnect CONNECT_URL (connect_params (JStr ''T1'')) (connect_headers (Some ''sid=1'')),
       SendJson 7 SUBSCRIBE_MSG])
   \<and> sends (snd (snd (connect fresh_client ok_attempt []))) = [SUBSCRIBE_MSG]
   \<and> sends (snd (snd (snd (messages sample_collab live_client [Text ''{}'', Text ''[]'']
        (0, snd (snd (connect fresh_client ok_attempt []))))))) = [SUBSCRIBE_MSG]"
proof -
  have ok: "connect fresh_client ok_attempt [] =
     (None, live_client,
      [HttpGet NEGOTIATE_URL negotiate_params,
       WsConnect CONNECT_URL (connect_params (JStr ''T1'')) (connect_headers (Some ''sid=1'')),
       SendJson 7 SUBSCRIBE_MSG])"
    by (simp add: connect_def ws_connect_def negotiate_def ok_attempt_def fresh_client_def live_client_def
        bnd_def thirty_seconds_def)
  show ?thesis
    using ok subscribe_sent_once [OF ok, of sample_collab "[Text ''{}'', Text ''[]'']" 0]
    by (simp add: sends_def)
qed

subsection \<open>Malformed frames\<close>

text \<open>
  C9 (frames that \<open>json.loads\<close> rejects with \<open>JSONDecodeError\<close>). Such a text frame is
  dropped: it yields nothing, hands no item on and raises nothing, and the loop goes on
  with the next frame. For a whole connection: taking every such frame out of the stream
  changes neither what \<open>messages()\<close> yields, nor how it ends, nor any call it makes.
\<close>

theorem malformed_frame_skipped:
  "(json_loads C data = Inl JSONDecodeError \<longrightarrow>
      messages C c (Text data # rest) s = messages C c rest s
      \<and> messages C c [Text data] s = ([], None, s))
   \<and> messages C c frames s = messages C c (filter (\<lambda>m. \<not> undecodable C m) frames) s"
proof -
  have loop: "messages_loop C c fs s = messages_loop C c (filter (\<lambda>m. \<not> undecodable C m) fs) s"
    for fs
  proof (induction fs arbitrary: s)
    case Nil
    show ?case by simp
  next
    case (Cons f fs)
    show ?case
    proof (cases f)
      case (Text d)
      show ?thesis
      proof (cases "json_loads C d")
        case (Inl err)
        with Text Cons [of s] show ?thesis by (simp add: undecodable_def)
      next
        case loaded: (Inr payload)
        obtain r s' where ps: "process_payload C c payload s = (r, s')"
          by (cases "process_payload C c payload s")
        show ?thesis
        proof (cases r)
          case (Inl e)
          with Text loaded ps show ?thesis by (simp add: undecodable_def)
        next
          case (Inr b)
          with Text loaded ps Cons [of s'] show ?thesis
            by (cases b) (simp_all add: undecodable_def)
        qed
      qed
    qed (use Cons in \<open>simp_all add: undecodable_def\<close>)
  qed
  show ?thesis
    using loop [of frames] by (simp add: messages_def)
qed

theorem malformed_frame_skipped_witness:
  "json_loads sample_collab ''not json'' = Inl JSONDecodeError
   \<and> messages sample_collab live_client [Text ''not json'', Text ''{}''] (0, [])
       = ([JObj []], None, (0, []))
   \<and> messages sample_collab live_client [Text ''not json''] (0, []) = ([], None, (0, []))
   \<and> filter (\<lambda>m. \<not> undecodable sample_collab m)
        [Text ''not json'', OtherType, Text ''{}'', Text ''not json'', Text ''[]'']
       = [OtherType, Text ''{}'', Text ''[]'']
   \<and> messages sample_collab live_client
        [Text ''not json'', OtherType, Text ''{}'', Text ''not json'', Text ''[]''] (0, [])
       = ([JObj [], JArr []], None, (0, []))"
proof -
  have h: "json_loads sample_collab ''not json'' = Inl JSONDecodeError"
    by (simp add: sample_collab_fields sample_loads_values)
  have idle: "process_payload sample_collab live_client (JObj []) s = (Inr True, s)"
    "process_payload sample_collab live_client (JArr []) s = (Inr True, s)" for s
    by (simp_all add: process_payload_def snapshot_raw_def bnd_def)
  have r: "messages sample_collab live_client [Text ''{}''] (0, []) = ([JObj []], None, (0, []))"
    by (simp add: messages_def live_client_fields sample_collab_fields sample_loads_values idle)
  have f: "filter (\<lambda>m. \<not> undecodable sample_collab m)
        [Text ''not json'', OtherType, Text ''{}'', Text ''not json'', Text ''[]'']
       = [OtherType, Text ''{}'', Text ''[]'']"
    by (simp add: undecodable_def sample_collab_fields sample_loads_values)
  have g: "messages sample_collab live_client [OtherType, Text ''{}'', Text ''[]''] (0, [])
       = ([JObj [], JArr []], None, (0, []))"
    by (simp add: messages_def live_client_fields sample_collab_fields sample_loads_values idle)
  note one = malformed_frame_skipped [where C = sample_collab and c = live_client
      and s = "(0, [])", THEN conjunct1, rule_format, OF h]
  note all = malformed_frame_skipped [where C = sample_collab and c = live_client
      and s = "(0, [])"
      and frames = "[Text ''not json'', OtherType, Text ''{}'', Text ''not json'', Text ''[]'']",
      THEN conjunct2]
  show ?thesis
    using h one [of "[Text ''{}'']"] one [of "[]"] all r f g by simp
qed

text \<open>
  C9 does not hold for every body that is not valid JSON. \<open>NaN\<close> is not JSON, but
  \<open>json.loads\<close> returns the float for it, and the membership test on a float raises
  \<open>TypeError\<close>. On 100000 opening brackets \<open>json.loads\<close> raises \<open>RecursionError\<close>,
  which \<open>except json.JSONDecodeError\<close> does not catch. Either exception ends
  \<open>messages()\<close>, and the frame after it is never read.
\<close>

theorem not_json_counterexample:
  "json_loads sample_collab ''NaN'' = Inr (JFloat NaN)
   \<and> messages sample_collab live_client [Text ''NaN'', Text ''{}''] (0, [])
       = ([], Some TypeError, (0, []))
   \<and> json_loads sample_collab text_deep = Inl RecursionError
   \<and> messages sample_collab live_client [Text text_deep, Text ''{}''] (0, [])
       = ([], Some RecursionError, (0, []))"
  by (simp add: messages_def live_client_fields sample_collab_fields sample_loads_values
      process_payload_def)

subsection \<open>No handle\<close>

text \<open>
  C10. Without a connection handle (before any successful connect, or after \<open>close()\<close>)
  \<open>messages()\<close> yields nothing and returns at once, without an error.
\<close>

theorem messages_without_handle:
  "ws c = None \<Longrightarrow> messages C c frames s = ([], None, s)"
  by (simp add: messages_def)

theorem messages_without_handle_witness:
  "ws fresh_client = None
   \<and> messages sample_collab fresh_client [Text ''{}'', Text ''5''] (0, []) = ([], None, (0, []))
   \<and> messages sample_collab (fst (close live_client [])) [Text ''{}''] (0, []) = ([], None, (0, []))"
proof -
  have h: "ws fresh_client = None" by (simp add: fresh_client_def)
  have k: "ws (fst (close live_client [])) = None" by (simp add: close_def live_client_def)
  show ?thesis
    using h messages_without_handle [OF h, of sample_collab "[Text ''{}'', Text ''5'']" "(0, [])"]
          messages_without_handle [OF k, of sample_collab "[Text ''{}'']" "(0, [])"]
    by simp
qed

end
